theory Spec2Isabelle
  imports Main "HOL-Library.Char_ord" "HOL-Library.List_Lexorder"
begin

section \<open>Python values and their textual form\<close>

text \<open>
  The program is a Streamlit script (\<^verbatim>\<open>main_pro.py\<close>) that stores resume profiles in
  \<^verbatim>\<open>resume_output.csv\<close> through pandas.  Strings are modelled as lists of 8-bit characters,
  that is, as ASCII text.
\<close>

datatype pyval =
    PNone
  | PInt int
  | PStr string
  | PList "pyval list"
  | PDict "(string \<times> pyval) list"

text \<open>\<^verbatim>\<open>sep.join(xs)\<close>\<close>

fun join :: "string \<Rightarrow> string list \<Rightarrow> string" where
  "join sep [] = []"
| "join sep [x] = x"
| "join sep (x # y # ys) = x @ sep @ join sep (y # ys)"

text \<open>\<^verbatim>\<open>s.split(c)\<close> for a one-character separator: never the empty list.\<close>

fun split_on :: "char \<Rightarrow> string \<Rightarrow> string list" where
  "split_on c [] = [[]]"
| "split_on c (x # xs) =
     (if x = c then [] # split_on c xs
      else (case split_on c xs of
              [] \<Rightarrow> [[x]]
            | w # ws \<Rightarrow> (x # w) # ws))"

text \<open>
  \<^verbatim>\<open>str.isspace\<close> on ASCII: tab, line feed, vertical tab, form feed, carriage return,
  the separators \<^verbatim>\<open>0x1c\<close> to \<^verbatim>\<open>0x1f\<close>, and the space.
\<close>

definition py_isspace :: "char \<Rightarrow> bool" where
  "py_isspace c =
     (let n = of_char c :: nat in (9 \<le> n \<and> n \<le> 13) \<or> (28 \<le> n \<and> n \<le> 32))"

text \<open>\<^verbatim>\<open>s.strip(chars)\<close>: characters satisfying \<open>P\<close> are removed at both ends.\<close>

definition strip_chars :: "(char \<Rightarrow> bool) \<Rightarrow> string \<Rightarrow> string" where
  "strip_chars P s = rev (dropWhile P (rev (dropWhile P s)))"

definition strip :: "string \<Rightarrow> string" where
  "strip s = strip_chars py_isspace s"

text \<open>\<^verbatim>\<open>s.strip("[]")\<close>\<close>

definition strip_brackets :: "string \<Rightarrow> string" where
  "strip_brackets s = strip_chars (\<lambda>c. c = CHR ''['' \<or> c = CHR '']'') s"

text \<open>\<^verbatim>\<open>s.lower()\<close> on ASCII.\<close>

definition lower_char :: "char \<Rightarrow> char" where
  "lower_char c =
     (let n = of_char c :: nat in if 65 \<le> n \<and> n \<le> 90 then char_of (n + 32) else c)"

definition lower :: "string \<Rightarrow> string" where
  "lower s = map lower_char s"

text \<open>Decimal digits of a natural number, and \<^verbatim>\<open>str\<close> of an integer.\<close>

fun nat_digits :: "nat \<Rightarrow> string" where
  "nat_digits n =
     (if n < 10 then [char_of (48 + n)]
      else nat_digits (n div 10) @ [char_of (48 + n mod 10)])"

definition int_str :: "int \<Rightarrow> string" where
  "int_str i = (if i < 0 then CHR ''-'' # nat_digits (nat (- i)) else nat_digits (nat i))"

text \<open>
  \<^verbatim>\<open>repr\<close> of a string: single quotes, unless the string holds a single quote and no
  double quote; the quote and the backslash are escaped, tab, line feed and carriage return
  are written \<^verbatim>\<open>\t\<close>, \<^verbatim>\<open>\n\<close>, \<^verbatim>\<open>\r\<close>, every other control character as \<^verbatim>\<open>\xhh\<close>.
\<close>

definition hex_digit :: "nat \<Rightarrow> char" where
  "hex_digit n = (if n < 10 then char_of (48 + n) else char_of (87 + n))"

definition repr_char :: "char \<Rightarrow> char \<Rightarrow> string" where
  "repr_char q c =
     (let n = of_char c :: nat in
      if c = q \<or> c = CHR 0x5C then [CHR 0x5C, c]
      else if n = 9 then [CHR 0x5C, CHR ''t'']
      else if n = 10 then [CHR 0x5C, CHR ''n'']
      else if n = 13 then [CHR 0x5C, CHR ''r'']
      else if n < 32 \<or> n = 127 then [CHR 0x5C, CHR ''x'', hex_digit (n div 16), hex_digit (n mod 16)]
      else [c])"

definition repr_str :: "string \<Rightarrow> string" where
  "repr_str s =
     (let q = (if CHR 0x27 \<in> set s \<and> CHR 0x22 \<notin> set s then CHR 0x22 else CHR 0x27)
      in q # concat (map (repr_char q) s) @ [q])"

fun py_repr :: "pyval \<Rightarrow> string" where
  "py_repr PNone = ''None''"
| "py_repr (PInt i) = int_str i"
| "py_repr (PStr s) = repr_str s"
| "py_repr (PList xs) = ''['' @ join '', '' (map py_repr xs) @ '']''"
| "py_repr (PDict kvs) =
     ''{'' @ join '', '' (map (\<lambda>kv. repr_str (fst kv) @ '': '' @ py_repr (snd kv)) kvs) @ ''}''"

text \<open>
  The reading of a list display of string literals, as Python's \<^verbatim>\<open>eval\<close> performs it on
  the texts accepted here: an opening bracket, then either the closing bracket or string
  literals separated by a comma and a blank, then the closing bracket and nothing more.  A
  literal is quoted by single or by double quotes; in it a backslash introduces one of the
  escapes of \<^verbatim>\<open>repr\<close> (an escaped backslash or quote, \<^verbatim>\<open>\t\<close>, \<^verbatim>\<open>\n\<close>, \<^verbatim>\<open>\r\<close>, \<^verbatim>\<open>\xhh\<close>), and a
  control character does not stand for itself.  The result is \<open>None\<close> for every other text (other
  escapes, other expressions), about which nothing is said.  The reading goes character by
  character, the state telling what is expected next.
\<close>

definition hex_val :: "char \<Rightarrow> nat option" where
  "hex_val c =
     (let n = of_char c :: nat in
      if 48 \<le> n \<and> n \<le> 57 then Some (n - 48)
      else if 97 \<le> n \<and> n \<le> 102 then Some (n - 87)
      else if 65 \<le> n \<and> n \<le> 70 then Some (n - 55)
      else None)"

datatype lexer =
    Open
  | Elem
  | Body char string
  | Esc char string
  | Hex1 char string
  | Hex2 char string nat
  | Sep
  | Blank
  | Closed

fun run :: "lexer \<Rightarrow> pyval list \<Rightarrow> string \<Rightarrow> pyval list option" where
  "run Closed items [] = Some (rev items)"
| "run st items [] = None"
| "run Open items (c # cs) =
     (if c = CHR '']'' then run Closed items cs
      else if c = CHR 0x27 \<or> c = CHR 0x22 then run (Body c []) items cs
      else None)"
| "run Elem items (c # cs) =
     (if c = CHR 0x27 \<or> c = CHR 0x22 then run (Body c []) items cs else None)"
| "run (Body q acc) items (c # cs) =
     (if c = q then run Sep (PStr (rev acc) # items) cs
      else if c = CHR 0x5C then run (Esc q acc) items cs
      else if (of_char c :: nat) < 32 \<or> (of_char c :: nat) = 127 then None
      else run (Body q (c # acc)) items cs)"
| "run (Esc q acc) items (c # cs) =
     (if c = CHR 0x5C \<or> c = CHR 0x27 \<or> c = CHR 0x22 then run (Body q (c # acc)) items cs
      else if c = CHR ''t'' then run (Body q (CHR 0x09 # acc)) items cs
      else if c = CHR ''n'' then run (Body q (CHR 0x0A # acc)) items cs
      else if c = CHR ''r'' then run (Body q (CHR 0x0D # acc)) items cs
      else if c = CHR ''x'' then run (Hex1 q acc) items cs
      else None)"
| "run (Hex1 q acc) items (c # cs) =
     (case hex_val c of None \<Rightarrow> None | Some a \<Rightarrow> run (Hex2 q acc a) items cs)"
| "run (Hex2 q acc a) items (c # cs) =
     (case hex_val c of
        None \<Rightarrow> None
      | Some b \<Rightarrow> run (Body q (char_of (16 * a + b) # acc)) items cs)"
| "run Sep items (c # cs) =
     (if c = CHR '']'' then run Closed items cs
      else if c = CHR '','' then run Blank items cs
      else None)"
| "run Blank items (c # cs) = (if c = CHR '' '' then run Elem items cs else None)"
| "run Closed items (c # cs) = None"

definition list_display :: "string \<Rightarrow> pyval list option" where
  "list_display s = (case s of [] \<Rightarrow> None | c # cs \<Rightarrow> if c = CHR ''['' then run Open [] cs else None)"

section \<open>Text extraction (\<^verbatim>\<open>load_resume_text\<close>)\<close>

datatype py_error =
    ValueError string
  | LoaderError string
  | FileNotFoundError
  | TypeError

text \<open>
  \<^verbatim>\<open>Path(file_path).suffix\<close> of pathlib (POSIX flavour, Python 3.11): the name is the last
  path component that is neither empty nor a single dot; with \<open>i\<close> the position of the
  last dot of the name, the suffix is \<^verbatim>\<open>name[i:]\<close> when \<open>0 < i < len(name) - 1\<close> and the
  empty string otherwise.
\<close>

definition path_name :: "string \<Rightarrow> string" where
  "path_name p =
     (case filter (\<lambda>c. c \<noteq> [] \<and> c \<noteq> ''.'') (split_on CHR ''/'' p) of
        [] \<Rightarrow> []
      | c # cs \<Rightarrow> last (c # cs))"

definition rfind :: "char \<Rightarrow> string \<Rightarrow> nat option" where
  "rfind c s =
     (let r = takeWhile (\<lambda>x. x \<noteq> c) (rev s)
      in if length r = length s then None else Some (length s - length r - 1))"

definition suffix :: "string \<Rightarrow> string" where
  "suffix p =
     (let name = path_name p in
      case rfind CHR ''.'' name of
        None \<Rightarrow> []
      | Some i \<Rightarrow> if 0 < i \<and> i + 1 < length name then drop i name else [])"

text \<open>
  The two document loaders (\<^verbatim>\<open>PyPDFLoader\<close>, \<^verbatim>\<open>Docx2txtLoader\<close>) are external: a
  loader maps a path to the list of its documents, each with its \<^verbatim>\<open>page_content\<close>
  (\<open>None\<close> when the attribute is missing or null), or raises.
\<close>

type_synonym loader = "string \<Rightarrow> py_error + string option list"

text \<open>
  \<^verbatim>\<open>"\n\n".join([d.page_content for d in docs if getattr(d, "page_content", None)])\<close>:
  a missing, null or empty content is skipped.
\<close>

definition join_pages :: "string option list \<Rightarrow> string" where
  "join_pages docs = join [CHR 0x0A, CHR 0x0A] [c. Some c \<leftarrow> docs, c \<noteq> []]"

definition unsupported :: py_error where
  "unsupported = ValueError ''Unsupported file type. Only PDF and DOCX are supported.''"

definition load_resume_text :: "loader \<Rightarrow> loader \<Rightarrow> string \<Rightarrow> py_error + string" where
  "load_resume_text PyPDFLoader Docx2txtLoader file_path =
     (let ext = lower (suffix file_path) in
      if ext = ''.pdf'' then
        (case PyPDFLoader file_path of Inl e \<Rightarrow> Inl e | Inr docs \<Rightarrow> Inr (join_pages docs))
      else if ext = ''.docx'' then
        (case Docx2txtLoader file_path of Inl e \<Rightarrow> Inl e | Inr docs \<Rightarrow> Inr (join_pages docs))
      else Inl unsupported)"

section \<open>The profile and its derived skills (first tab)\<close>

text \<open>
  Modelled from the spec: the \<^verbatim>\<open>Profile\<close> schema (\<^verbatim>\<open>schema.py\<close>) is not part of the
  sources.  Section 3 of the specification lists its fields; the three technical skill
  lists, the interpersonal skills and the certifications are lists of strings, the other
  fields are taken as text.  Every field may be null (\<open>None\<close>), which is what the guards
  of the script (\<^verbatim>\<open>or []\<close>, \<^verbatim>\<open>isinstance(tech, list)\<close>) provide for.
\<close>

record technical =
  programming_languages :: "string list option"
  libraries_or_frameworks :: "string list option"
  other_tools :: "string list option"

record profile =
  fullname :: "string option"
  email_id :: "string option"
  phone_number :: "string option"
  current_location :: "string option"
  designation :: "string option"
  technical_skills :: "technical list option"
  interpersonal_skills :: "string list option"
  year_of_experience :: "string option"
  current_ctc :: "string option"
  current_company :: "string option"
  expected_ctc :: "string option"
  linkedin_url :: "string option"
  github_url :: "string option"
  portfolio_project_url :: "string option"
  summary :: "string option"
  certifications :: "string list option"

text \<open>\<^verbatim>\<open>x or []\<close>\<close>

definition or_empty :: "'a list option \<Rightarrow> 'a list" where
  "or_empty x = (case x of None \<Rightarrow> [] | Some xs \<Rightarrow> xs)"

text \<open>
  \<^verbatim>\<open>tech0 = tech[0] if isinstance(tech, list) and len(tech) > 0 else {}\<close>; the empty
  dictionary is \<open>None\<close> here, and \<^verbatim>\<open>{}.get(key)\<close> is null.
\<close>

definition tech0 :: "profile \<Rightarrow> technical option" where
  "tech0 data = (case technical_skills data of Some (t # _) \<Rightarrow> Some t | _ \<Rightarrow> None)"

definition prog_langs :: "profile \<Rightarrow> string list" where
  "prog_langs data =
     or_empty (case tech0 data of None \<Rightarrow> None | Some t \<Rightarrow> programming_languages t)"

definition frameworks :: "profile \<Rightarrow> string list" where
  "frameworks data =
     or_empty (case tech0 data of None \<Rightarrow> None | Some t \<Rightarrow> libraries_or_frameworks t)"

definition tools :: "profile \<Rightarrow> string list" where
  "tools data = or_empty (case tech0 data of None \<Rightarrow> None | Some t \<Rightarrow> other_tools t)"

text \<open>
  \<^verbatim>\<open>all_skills = list({*prog_langs, *frameworks, *tools})\<close>.  Python leaves the order of
  a set open; the model keeps one copy of every element in some fixed order, and the
  theorems below speak of the elements only.
\<close>

definition all_skills :: "profile \<Rightarrow> string list" where
  "all_skills data = remdups (prog_langs data @ frameworks data @ tools data)"

text \<open>
  The dictionary kept in \<^verbatim>\<open>st.session_state["resume_data"]\<close>: the dumped profile with
  the added key \<^verbatim>\<open>"skills"\<close>.
\<close>

record resume_data =
  prof :: profile
  skills :: "string list"

definition convert :: "profile \<Rightarrow> resume_data" where
  "convert data = \<lparr>prof = data, skills = all_skills data\<rparr>"


section \<open>The CSV file and pandas\<close>

text \<open>
  \<^verbatim>\<open>default_columns\<close>, the header line of \<^verbatim>\<open>resume_output.csv\<close>.
\<close>

definition default_columns :: "string list" where
  "default_columns =
     [''fullname'', ''email_id'', ''phone_number'', ''current_location'', ''designation'',
      ''technical_skills'', ''interpersonal_skills'', ''year_of_experience'', ''current_ctc'',
      ''current_company'', ''expected_ctc'', ''linkedin_url'', ''github_url'',
      ''portfolio_project_url'', ''summary'', ''certifications'', ''skills'']"

text \<open>
  A data line of the file: one field text per column of \<^verbatim>\<open>default_columns\<close>.  The CSV
  quoting is left out: a field is its text after unquoting.
\<close>

record csv_line =
  col_fullname :: string
  col_email_id :: string
  col_phone_number :: string
  col_current_location :: string
  col_designation :: string
  col_technical_skills :: string
  col_interpersonal_skills :: string
  col_year_of_experience :: string
  col_current_ctc :: string
  col_current_company :: string
  col_expected_ctc :: string
  col_linkedin_url :: string
  col_github_url :: string
  col_portfolio_project_url :: string
  col_summary :: string
  col_certifications :: string
  col_skills :: string

text \<open>
  The file system, as far as the script uses it: \<open>None\<close> when \<^verbatim>\<open>resume_output.csv\<close>
  does not exist, \<open>Some ls\<close> when it holds the header line followed by the data lines
  \<open>ls\<close> (\<open>Some []\<close> is the file with the header only).
\<close>

type_synonym disk = "csv_line list option"

definition lines_of :: "disk \<Rightarrow> csv_line list" where
  "lines_of d = (case d of None \<Rightarrow> [] | Some ls \<Rightarrow> ls)"

text \<open>
  The texts that \<^verbatim>\<open>pd.read_csv\<close> reads as a missing value (the default
  \<^verbatim>\<open>na_values\<close> of pandas 2 with \<^verbatim>\<open>keep_default_na=True\<close>).
\<close>

definition na_values :: "string list" where
  "na_values =
     ['''', ''#N/A'', ''#N/A N/A'', ''#NA'', ''-1.#IND'', ''-1.#QNAN'', ''-NaN'', ''-nan'',
      ''1.#IND'', ''1.#QNAN'', ''<NA>'', ''N/A'', ''NA'', ''NULL'', ''NaN'', ''None'',
      ''n/a'', ''nan'', ''null'']"

text \<open>
  A cell of a data frame: the missing value \<^verbatim>\<open>NaN\<close>, a string, a Python list, or any
  other value (a number or a boolean of a converted column), kept with its \<^verbatim>\<open>str()\<close>.
\<close>

datatype cell =
    NaN
  | Str string
  | Other string
  | Lst "pyval list"

text \<open>
  The dtype inference of \<^verbatim>\<open>read_csv\<close> is external and taken as a parameter:
  \<open>conv ts t\<close> is \<open>None\<close> when the text \<open>t\<close> of a column with the texts \<open>ts\<close> stays a
  string (dtype \<^verbatim>\<open>object\<close>), and \<open>Some s\<close> when pandas converts the column to numbers or
  booleans, \<open>s\<close> being the \<^verbatim>\<open>str()\<close> of the value read from \<open>t\<close>.  Missing values are
  recognised first.  pandas converts a text only when the text itself reads as a number or
  a boolean, and such a text is made of letters, digits, signs, dots, underscores and
  blanks: a text with any other character (a bracket, a quote, a comma, an at sign) stays
  the string it is, whatever the inference does with other texts.
\<close>

type_synonym inference = "string list \<Rightarrow> string \<Rightarrow> string option"

definition scalar_char :: "char \<Rightarrow> bool" where
  "scalar_char c =
     (let n = of_char c :: nat in
      (48 \<le> n \<and> n \<le> 57) \<or> (65 \<le> n \<and> n \<le> 90) \<or> (97 \<le> n \<and> n \<le> 122)
      \<or> c = CHR ''+'' \<or> c = CHR ''-'' \<or> c = CHR ''.'' \<or> c = CHR ''_''
      \<or> py_isspace c \<or> 128 \<le> n)"

definition read_cell :: "inference \<Rightarrow> string list \<Rightarrow> string \<Rightarrow> cell" where
  "read_cell conv ts t =
     (if t \<in> set na_values then NaN
      else if list_all scalar_char t then
        (case conv ts t of None \<Rightarrow> Str t | Some s \<Rightarrow> Other s)
      else Str t)"

definition read_column :: "inference \<Rightarrow> string list \<Rightarrow> cell list" where
  "read_column conv ts = map (read_cell conv ts) ts"

text \<open>
  One element of \<^verbatim>\<open>df["email_id"] == email\<close>: a cell equals the e-mail only when it is
  that string; a missing cell, a number, and the comparison with \<^verbatim>\<open>None\<close> give
  \<^verbatim>\<open>False\<close>.
\<close>

fun pd_eq :: "cell \<Rightarrow> string option \<Rightarrow> bool" where
  "pd_eq (Str s) (Some e) = (s = e)"
| "pd_eq _ _ = False"

text \<open>
  The text \<^verbatim>\<open>to_csv\<close> writes for a value of a one-row frame built from a dictionary:
  nothing for \<^verbatim>\<open>None\<close>, a string as it is, \<^verbatim>\<open>str()\<close> of anything else.
\<close>

definition to_csv_field :: "pyval \<Rightarrow> string" where
  "to_csv_field v = (case v of PNone \<Rightarrow> [] | PStr s \<Rightarrow> s | _ \<Rightarrow> py_repr v)"

text \<open>The text \<^verbatim>\<open>to_csv\<close> writes for a cell read before.\<close>

fun cell_text :: "cell \<Rightarrow> string" where
  "cell_text NaN = []"
| "cell_text (Str s) = s"
| "cell_text (Other s) = s"
| "cell_text (Lst xs) = py_repr (PList xs)"

text \<open>\<^verbatim>\<open>response.model_dump()\<close>: the values of the dictionary \<^verbatim>\<open>data\<close>.\<close>

definition opt_str :: "string option \<Rightarrow> pyval" where
  "opt_str x = (case x of None \<Rightarrow> PNone | Some s \<Rightarrow> PStr s)"

definition opt_list :: "string list option \<Rightarrow> pyval" where
  "opt_list x = (case x of None \<Rightarrow> PNone | Some xs \<Rightarrow> PList (map PStr xs))"

definition dump_technical :: "technical \<Rightarrow> pyval" where
  "dump_technical t =
     PDict [(''programming_languages'', opt_list (programming_languages t)),
            (''libraries_or_frameworks'', opt_list (libraries_or_frameworks t)),
            (''other_tools'', opt_list (other_tools t))]"

definition dump_technical_skills :: "technical list option \<Rightarrow> pyval" where
  "dump_technical_skills x =
     (case x of None \<Rightarrow> PNone | Some ts \<Rightarrow> PList (map dump_technical ts))"

text \<open>
  The line written for \<^verbatim>\<open>pd.DataFrame([row])\<close>, where
  \<^verbatim>\<open>row = {k: data_to_save.get(k) ... for k in default_columns}\<close>: every key of
  \<^verbatim>\<open>default_columns\<close> is a key of the dictionary.
\<close>

definition new_line :: "resume_data \<Rightarrow> csv_line" where
  "new_line d =
     \<lparr>col_fullname = to_csv_field (opt_str (fullname (prof d))),
      col_email_id = to_csv_field (opt_str (email_id (prof d))),
      col_phone_number = to_csv_field (opt_str (phone_number (prof d))),
      col_current_location = to_csv_field (opt_str (current_location (prof d))),
      col_designation = to_csv_field (opt_str (designation (prof d))),
      col_technical_skills = to_csv_field (dump_technical_skills (technical_skills (prof d))),
      col_interpersonal_skills = to_csv_field (opt_list (interpersonal_skills (prof d))),
      col_year_of_experience = to_csv_field (opt_str (year_of_experience (prof d))),
      col_current_ctc = to_csv_field (opt_str (current_ctc (prof d))),
      col_current_company = to_csv_field (opt_str (current_company (prof d))),
      col_expected_ctc = to_csv_field (opt_str (expected_ctc (prof d))),
      col_linkedin_url = to_csv_field (opt_str (linkedin_url (prof d))),
      col_github_url = to_csv_field (opt_str (github_url (prof d))),
      col_portfolio_project_url = to_csv_field (opt_str (portfolio_project_url (prof d))),
      col_summary = to_csv_field (opt_str (summary (prof d))),
      col_certifications = to_csv_field (opt_list (certifications (prof d))),
      col_skills = to_csv_field (PList (map PStr (skills d)))\<rparr>"

section \<open>Saving (first tab)\<close>

datatype save_outcome =
    No_Resume_Data
  | Inserted
  | AwaitingConfirmation

text \<open>
  In the words of the specification: a row with the profile's e-mail exists, that is, the
  e-mail field of a line of the file is the e-mail of the profile.  A profile without
  e-mail has none to look for.
\<close>

definition has_email_row :: "csv_line list \<Rightarrow> string option \<Rightarrow> bool" where
  "has_email_row ls email =
     (case email of
        None \<Rightarrow> False
      | Some e \<Rightarrow> list_ex (\<lambda>l. col_email_id l = e) ls)"

text \<open>
  What the duplicate check of the handler finds: a row of the table that \<^verbatim>\<open>read_csv\<close>
  returns whose e-mail cell is the string of the profile's e-mail (see \<open>existing\<close> below).
\<close>

definition found_row :: "inference \<Rightarrow> csv_line list \<Rightarrow> string option \<Rightarrow> bool" where
  "found_row conv ls email =
     (case email of
        None \<Rightarrow> False
      | Some e \<Rightarrow>
          list_ex (\<lambda>l. read_cell conv (map col_email_id ls) (col_email_id l) = Str e) ls)"

text \<open>
  The handler of the button \<^verbatim>\<open>Save to Database\<close>.  \<open>AwaitingConfirmation\<close> is the
  branch that opens \<^verbatim>\<open>show_overwrite_dialog\<close>.
\<close>

definition existing :: "inference \<Rightarrow> csv_line list \<Rightarrow> string option \<Rightarrow> cell list" where
  "existing conv ls email =
     filter (\<lambda>c. pd_eq c email) (read_column conv (map col_email_id ls))"

definition save_to_database :: "inference \<Rightarrow> resume_data option \<Rightarrow> disk \<Rightarrow> save_outcome \<times> disk" where
  "save_to_database conv data_to_save d =
     (case data_to_save of
        None \<Rightarrow> (No_Resume_Data, d)
      | Some dat \<Rightarrow>
          (let d1 = (if d = None then Some [] else d);
               df = lines_of d1
           in if existing conv df (email_id (prof dat)) \<noteq> [] then (AwaitingConfirmation, d1)
              else (Inserted, Some (df @ [new_line dat]))))"

text \<open>
  The dialog.  \<^verbatim>\<open>Overwrite Existing\<close> reads the whole file, drops the lines whose e-mail
  cell equals the e-mail, appends the new line and writes the frame back, so every kept
  cell is written as pandas read it; \<^verbatim>\<open>Cancel\<close> writes nothing.
\<close>

datatype click =
    Overwrite_Existing
  | Cancel

definition rw :: "inference \<Rightarrow> string list \<Rightarrow> string \<Rightarrow> string" where
  "rw conv ts t = cell_text (read_cell conv ts t)"

definition rewrite_line :: "inference \<Rightarrow> csv_line list \<Rightarrow> csv_line \<Rightarrow> csv_line" where
  "rewrite_line conv ls l =
     \<lparr>col_fullname = rw conv (map col_fullname ls) (col_fullname l),
      col_email_id = rw conv (map col_email_id ls) (col_email_id l),
      col_phone_number = rw conv (map col_phone_number ls) (col_phone_number l),
      col_current_location = rw conv (map col_current_location ls) (col_current_location l),
      col_designation = rw conv (map col_designation ls) (col_designation l),
      col_technical_skills = rw conv (map col_technical_skills ls) (col_technical_skills l),
      col_interpersonal_skills = rw conv (map col_interpersonal_skills ls) (col_interpersonal_skills l),
      col_year_of_experience = rw conv (map col_year_of_experience ls) (col_year_of_experience l),
      col_current_ctc = rw conv (map col_current_ctc ls) (col_current_ctc l),
      col_current_company = rw conv (map col_current_company ls) (col_current_company l),
      col_expected_ctc = rw conv (map col_expected_ctc ls) (col_expected_ctc l),
      col_linkedin_url = rw conv (map col_linkedin_url ls) (col_linkedin_url l),
      col_github_url = rw conv (map col_github_url ls) (col_github_url l),
      col_portfolio_project_url = rw conv (map col_portfolio_project_url ls) (col_portfolio_project_url l),
      col_summary = rw conv (map col_summary ls) (col_summary l),
      col_certifications = rw conv (map col_certifications ls) (col_certifications l),
      col_skills = rw conv (map col_skills ls) (col_skills l)\<rparr>"

definition show_overwrite_dialog ::
  "inference \<Rightarrow> click \<Rightarrow> string option \<Rightarrow> resume_data \<Rightarrow> disk \<Rightarrow> py_error + disk" where
  "show_overwrite_dialog conv button email dat d =
     (case button of
        Cancel \<Rightarrow> Inr d
      | Overwrite_Existing \<Rightarrow>
          (case d of
             None \<Rightarrow> Inl FileNotFoundError
           | Some ls \<Rightarrow>
               Inr (Some (map (rewrite_line conv ls)
                            (filter (\<lambda>l. \<not> pd_eq (read_cell conv (map col_email_id ls) (col_email_id l)) email) ls)
                          @ [new_line dat]))))"


section \<open>Skill filtering (second tab)\<close>

text \<open>
  Python's \<^verbatim>\<open>eval\<close> is external and taken as a parameter: applied to the text of a
  cell it returns a value or raises an exception, one that \<^verbatim>\<open>except Exception\<close> catches.
  An evaluation that ends otherwise (\<^verbatim>\<open>SystemExit\<close> from the text \<^verbatim>\<open>exit()\<close>, which passes
  \<^verbatim>\<open>except Exception\<close> and ends the run of the script) is not covered by this type.
\<close>

datatype eval_result =
    Value pyval
  | Raises

type_synonym evaluator = "string \<Rightarrow> eval_result"

text \<open>\<^verbatim>\<open>[v.strip() for v in s.split(",") if v.strip()]\<close>\<close>

definition comma_split :: "string \<Rightarrow> string list" where
  "comma_split s = [strip v. v \<leftarrow> split_on CHR '','' s, strip v \<noteq> []]"

text \<open>
  \<^verbatim>\<open>safe_eval_list(x)\<close>.  A cell that is not a string makes \<^verbatim>\<open>eval\<close> raise
  \<^verbatim>\<open>TypeError\<close>, which the handler catches as it does every exception of \<^verbatim>\<open>eval\<close>;
  the handler then splits \<^verbatim>\<open>str(x).strip("[]")\<close>.  The string operations of that
  handler do not raise, so its own \<^verbatim>\<open>except\<close> branch (\<^verbatim>\<open>return []\<close>) is never taken.
\<close>

definition safe_eval_list :: "evaluator \<Rightarrow> cell \<Rightarrow> pyval list" where
  "safe_eval_list eval x =
     (case x of
        Lst xs \<Rightarrow> xs
      | NaN \<Rightarrow> []
      | Str s \<Rightarrow>
          (case eval s of
             Value (PList val) \<Rightarrow> val
           | Value _ \<Rightarrow> map PStr (comma_split s)
           | Raises \<Rightarrow> map PStr (comma_split (strip_brackets s)))
      | Other s \<Rightarrow> map PStr (comma_split (strip_brackets s)))"

text \<open>\<^verbatim>\<open>skill_data = df["skills"].apply(lambda x: safe_eval_list(x))\<close>\<close>

definition skill_data :: "evaluator \<Rightarrow> cell list \<Rightarrow> pyval list list" where
  "skill_data eval df_skills = map (safe_eval_list eval) df_skills"

text \<open>
  \<^verbatim>\<open>all(skill in safe_eval_list(skill_set) for skill in selected_skills)\<close>
\<close>

definition has_all :: "evaluator \<Rightarrow> pyval list \<Rightarrow> cell \<Rightarrow> bool" where
  "has_all eval selected_skills skill_set =
     list_all (\<lambda>skill. skill \<in> set (safe_eval_list eval skill_set)) selected_skills"

text \<open>
  \<^verbatim>\<open>filtered_df\<close>: the frame read from the file, or its rows selected by the boolean
  column above.  A row of the frame is given by the line it was read from.
\<close>

definition filtered_df :: "evaluator \<Rightarrow> inference \<Rightarrow> pyval list \<Rightarrow> csv_line list \<Rightarrow> csv_line list" where
  "filtered_df eval conv selected_skills df =
     (if selected_skills = [] then df
      else map fst (filter (\<lambda>(l, skill_set). has_all eval selected_skills skill_set)
                      (zip df (read_column conv (map col_skills df)))))"

text \<open>
  \<^verbatim>\<open>all_skills = sorted({s for ext in skill_data for s in ext})\<close> (the second tab uses
  the name \<^verbatim>\<open>all_skills\<close> again).  Building the set raises \<^verbatim>\<open>TypeError\<close> for a list or
  a dictionary, which cannot be hashed.  Sorting two or more values compares them: strings
  are ordered among themselves (by code point) and so are integers, every other pair
  raises \<^verbatim>\<open>TypeError\<close>.
\<close>

fun hashable :: "pyval \<Rightarrow> bool" where
  "hashable (PList xs) = False"
| "hashable (PDict kvs) = False"
| "hashable v = True"

fun is_str :: "pyval \<Rightarrow> bool" where
  "is_str (PStr s) = True"
| "is_str v = False"

fun is_int :: "pyval \<Rightarrow> bool" where
  "is_int (PInt i) = True"
| "is_int v = False"

definition sorted_py :: "pyval list \<Rightarrow> py_error + pyval list" where
  "sorted_py xs =
     (if length xs \<le> 1 then Inr xs
      else if list_all is_str xs then Inr (map PStr (sort [s. PStr s \<leftarrow> xs]))
      else if list_all is_int xs then Inr (map PInt (sort [i. PInt i \<leftarrow> xs]))
      else Inl TypeError)"

definition all_skills_tab2 :: "evaluator \<Rightarrow> cell list \<Rightarrow> py_error + pyval list" where
  "all_skills_tab2 eval df_skills =
     (let xs = concat (skill_data eval df_skills)
      in if list_all hashable xs then sorted_py (remdups xs) else Inl TypeError)"

text \<open>
  The second tab: nothing but a notice when the file is absent (\<open>None\<close>); otherwise the
  frame is read, the skills are collected for the selection box, and the rows filtered by
  the skills the user selected among them are shown.
\<close>

definition tab2 ::
  "evaluator \<Rightarrow> inference \<Rightarrow> pyval list \<Rightarrow> disk \<Rightarrow> py_error + csv_line list option" where
  "tab2 eval conv selected_skills d =
     (case d of
        None \<Rightarrow> Inr None
      | Some df \<Rightarrow>
          (case all_skills_tab2 eval (read_column conv (map col_skills df)) of
             Inl e \<Rightarrow> Inl e
           | Inr options \<Rightarrow> Inr (Some (filtered_df eval conv selected_skills df))))"

subsection \<open>The parse policy in the words of the specification\<close>

text \<open>
  ``If already a structured list, return as-is; if the textual form parses as a list
  literal, use it; otherwise fall back to comma-splitting the trimmed, bracket-stripped
  string.''  A missing cell has no text and is the empty list.
\<close>

definition tolerant_parse :: "evaluator \<Rightarrow> cell \<Rightarrow> pyval list" where
  "tolerant_parse eval x =
     (case x of
        Lst xs \<Rightarrow> xs
      | NaN \<Rightarrow> []
      | Str s \<Rightarrow>
          (case eval s of
             Value (PList val) \<Rightarrow> val
           | _ \<Rightarrow> map PStr (comma_split (strip_brackets s)))
      | Other s \<Rightarrow> map PStr (comma_split (strip_brackets s)))"

section \<open>Example inputs\<close>

text \<open>
  An \<^verbatim>\<open>eval\<close> for the examples below: the list displays \<^verbatim>\<open>['SQL', 'Git', 'Python']\<close>
  and \<^verbatim>\<open>['Go']\<close>, the subscription \<^verbatim>\<open>[1][0]\<close>, the list \<^verbatim>\<open>[1]\<close>, and a \<^verbatim>\<open>NameError\<close> or
  \<^verbatim>\<open>SyntaxError\<close> for the other texts used there.
\<close>

definition eval_example :: evaluator where
  "eval_example s =
     (if s = py_repr (PList [PStr ''SQL'', PStr ''Git'', PStr ''Python''])
      then Value (PList [PStr ''SQL'', PStr ''Git'', PStr ''Python''])
      else if s = py_repr (PList [PStr ''Go'']) then Value (PList [PStr ''Go''])
      else if s = ''[1][0]'' then Value (PInt 1)
      else if s = ''[1]'' then Value (PList [PInt 1])
      else Raises)"

text \<open>
  An \<^verbatim>\<open>eval\<close> that evaluates the list displays of string literals and raises on every
  other text.
\<close>

definition eval_display :: evaluator where
  "eval_display s = (case list_display s of None \<Rightarrow> Raises | Some val \<Rightarrow> Value (PList val))"

text \<open>An inference that converts no column: every text that is not missing stays a string.\<close>

definition no_conversion :: inference where
  "no_conversion ts t = None"


definition technical_example :: technical where
  "technical_example =
     \<lparr>programming_languages = Some [''Python'', ''SQL''],
      libraries_or_frameworks = None,
      other_tools = Some [''Git'', ''Python'']\<rparr>"

definition technical_go :: technical where
  "technical_go =
     \<lparr>programming_languages = Some [''Go''],
      libraries_or_frameworks = Some [],
      other_tools = None\<rparr>"

definition profile_example :: profile where
  "profile_example =
     \<lparr>fullname = Some ''Ann Lee'', email_id = Some ''a@x.com'', phone_number = None,
      current_location = Some ''Pune'', designation = None,
      technical_skills = Some [technical_example, technical_go],
      interpersonal_skills = Some [''Talking''],
      year_of_experience = Some ''3 years'', current_ctc = None, current_company = None,
      expected_ctc = None, linkedin_url = None, github_url = None,
      portfolio_project_url = None, summary = Some ''Engineer, data'',
      certifications = Some [''AWS'']\<rparr>"

definition profile_go :: profile where
  "profile_go =
     profile_example\<lparr>email_id := Some ''b@x.com'', technical_skills := Some [technical_go]\<rparr>"

text \<open>A profile whose e-mail the extraction service filled with \<^verbatim>\<open>N/A\<close>, and one without.\<close>

definition profile_na :: profile where
  "profile_na = profile_example\<lparr>email_id := Some ''N/A''\<rparr>"

definition profile_no_email :: profile where
  "profile_no_email = profile_example\<lparr>email_id := None\<rparr>"

text \<open>
  Three stored lines, the second with a corrupt skills cell; and a line whose skills cell is
  a list of numbers.
\<close>

definition line_corrupt :: csv_line where
  "line_corrupt = (new_line (convert profile_no_email))\<lparr>col_skills := ''Python; [SQL''\<rparr>"

definition table_example :: "csv_line list" where
  "table_example = [new_line (convert profile_example), line_corrupt, new_line (convert profile_go)]"

definition line_numbers :: csv_line where
  "line_numbers = (new_line (convert profile_no_email))\<lparr>col_skills := ''[1]''\<rparr>"

definition pdf_example :: loader where
  "pdf_example file_path = Inr [Some ''page one'', None, Some [], Some ''page two'']"

definition docx_example :: loader where
  "docx_example file_path = Inl (LoaderError ''not a zip file'')"

section \<open>Auxiliary facts\<close>

lemma pd_eq_Some: "pd_eq c (Some e) \<longleftrightarrow> c = Str e"
  by (cases c) auto

lemma pd_eq_None: "\<not> pd_eq c None"
  by (cases c) auto

lemma existing_iff: "existing conv ls email \<noteq> [] \<longleftrightarrow> found_row conv ls email"
proof (cases email)
  case None
  then show ?thesis
    by (simp add: existing_def found_row_def pd_eq_None)
next
  case (Some e)
  have "existing conv ls (Some e) \<noteq> [] \<longleftrightarrow>
          (\<exists>c \<in> set (read_column conv (map col_email_id ls)). pd_eq c (Some e))"
    by (simp add: existing_def filter_empty_conv)
  also have "\<dots> \<longleftrightarrow>
          (\<exists>l \<in> set ls. read_cell conv (map col_email_id ls) (col_email_id l) = Str e)"
    by (simp add: read_column_def pd_eq_Some image_iff) metis
  finally show ?thesis
    using Some by (simp add: found_row_def list_ex_iff)
qed

lemma found_row_Nil: "\<not> found_row conv [] email"
  by (simp add: found_row_def split: option.splits)

lemma save_cases:
  "save_to_database conv (Some dat) d =
     (if found_row conv (lines_of d) (email_id (prof dat)) then (AwaitingConfirmation, d)
      else (Inserted, Some (lines_of d @ [new_line dat])))"
proof (cases d)
  case None
  then show ?thesis
    by (simp add: save_to_database_def lines_of_def existing_iff found_row_Nil)
next
  case (Some ls)
  then show ?thesis
    by (simp add: save_to_database_def lines_of_def existing_iff)
qed

lemma col_email_new_line:
  "col_email_id (new_line dat) = (case email_id (prof dat) of None \<Rightarrow> [] | Some e \<Rightarrow> e)"
  by (simp add: new_line_def to_csv_field_def opt_str_def split: option.splits)

lemma col_skills_new_line:
  "col_skills (new_line dat) = py_repr (PList (map PStr (skills dat)))"
  by (simp add: new_line_def to_csv_field_def)

text \<open>An e-mail that pandas reads as a missing value is never found again.\<close>

lemma na_email_no_row:
  assumes "e \<in> set na_values"
  shows "\<not> found_row conv ls (Some e)"
proof -
  have "read_cell conv ts t \<noteq> Str e" for ts t
    using assms by (auto simp: read_cell_def split: option.splits)
  then show ?thesis
    by (simp add: found_row_def list_ex_iff)
qed

text \<open>
  A text that is not a missing value and holds a character that no number has is read back
  as the string it is; for such an e-mail the duplicate check finds a row exactly when a
  stored row has the e-mail, and the handler does what the specification says.
\<close>

lemma read_cell_kept:
  assumes "t \<notin> set na_values" and "\<not> list_all scalar_char t"
  shows "read_cell conv ts t = Str t"
  using assms by (simp add: read_cell_def)

lemma read_cell_Str: "read_cell conv ts t = Str e \<Longrightarrow> t = e"
  by (auto simp: read_cell_def split: if_splits option.splits)

lemma found_row_iff_stored:
  assumes "e \<notin> set na_values" and "\<not> list_all scalar_char e"
  shows "found_row conv ls (Some e) \<longleftrightarrow> has_email_row ls (Some e)"
proof
  assume "found_row conv ls (Some e)"
  then show "has_email_row ls (Some e)"
    by (auto simp: found_row_def has_email_row_def list_ex_iff dest: read_cell_Str)
next
  assume "has_email_row ls (Some e)"
  then obtain l where "l \<in> set ls" and "col_email_id l = e"
    by (auto simp: has_email_row_def list_ex_iff)
  then show "found_row conv ls (Some e)"
    using read_cell_kept [OF assms, of conv "map col_email_id ls"]
    by (auto simp: found_row_def list_ex_iff)
qed

lemma save_twice_na:
  assumes "email_id (prof dat) = Some e" and "e \<in> set na_values"
  shows "save_to_database conv (Some dat) (snd (save_to_database conv (Some dat) None))
         = (Inserted, Some [new_line dat, new_line dat])"
  using assms by (simp add: save_cases na_email_no_row lines_of_def)

lemma save_finds_stored_email:
  assumes "email_id (prof dat) = Some e" and "e \<notin> set na_values" and "\<not> list_all scalar_char e"
  shows "save_to_database conv (Some dat) d =
           (if has_email_row (lines_of d) (Some e) then (AwaitingConfirmation, d)
            else (Inserted, Some (lines_of d @ [new_line dat])))"
  using assms by (simp add: save_cases found_row_iff_stored)

lemma save_twice_one_row:
  assumes "email_id (prof dat) = Some e" and "e \<notin> set na_values" and "\<not> list_all scalar_char e"
  shows "save_to_database conv (Some dat) (snd (save_to_database conv (Some dat) None))
         = (AwaitingConfirmation, Some [new_line dat])"
proof -
  have "has_email_row [new_line dat] (Some e)"
    using assms by (simp add: has_email_row_def col_email_new_line)
  then show ?thesis
    using assms by (simp add: save_finds_stored_email has_email_row_def lines_of_def)
qed

lemma filter_zip_map:
  "map fst (filter (\<lambda>(l, c). P c) (zip ls (map f ls))) = filter (\<lambda>l. P (f l)) ls"
  by (induction ls) auto

lemma has_all_subset:
  "has_all eval selected x \<longleftrightarrow> set selected \<subseteq> set (safe_eval_list eval x)"
  by (auto simp: has_all_def list_all_iff)

lemma repr_list_not_na: "py_repr (PList xs) \<notin> set na_values"
  by (simp add: na_values_def)

lemma to_csv_field_list: "to_csv_field (PList xs) = py_repr (PList xs)"
  by (simp add: to_csv_field_def)

lemma skills_example: "skills (convert profile_example) = [''SQL'', ''Git'', ''Python'']"
  by code_simp

lemma email_example: "email_id (prof (convert profile_example)) = Some ''a@x.com''"
  by code_simp

lemma has_row_example:
  "found_row no_conversion [new_line (convert profile_example)] (Some ''a@x.com'')"
  by code_simp

lemma no_row_example:
  "\<not> found_row no_conversion [new_line (convert profile_go)] (Some ''a@x.com'')"
  by code_simp

lemma strs_back: "list_all is_str xs \<Longrightarrow> map PStr [s. PStr s \<leftarrow> xs] = xs"
proof (induction xs)
  case Nil
  then show ?case by simp
next
  case (Cons x xs)
  then show ?case by (cases x) simp_all
qed

lemma sorted_py_strs:
  assumes "list_all is_str xs"
  shows "\<exists>opts. sorted_py xs = Inr opts \<and> set opts = set xs"
proof (cases "length xs \<le> 1")
  case True
  then show ?thesis by (simp add: sorted_py_def)
next
  case False
  have "set (map PStr (sort [s. PStr s \<leftarrow> xs])) = set (map PStr [s. PStr s \<leftarrow> xs])"
    by simp
  then have "set (map PStr (sort [s. PStr s \<leftarrow> xs])) = set xs"
    using strs_back [OF assms] by simp
  then show ?thesis
    using False assms by (simp add: sorted_py_def)
qed

lemma is_str_hashable: "is_str v \<Longrightarrow> hashable v"
  by (cases v) simp_all

text \<open>When every parsed skill of a table is a string, collecting and sorting them succeeds.\<close>

lemma all_skills_tab2_strs:
  assumes "\<forall>x \<in> set df_skills. list_all is_str (safe_eval_list eval x)"
  shows "\<exists>opts. all_skills_tab2 eval df_skills = Inr opts
           \<and> set opts = (\<Union>x \<in> set df_skills. set (safe_eval_list eval x))"
proof -
  let ?xs = "concat (skill_data eval df_skills)"
  have s: "list_all is_str ?xs"
    using assms by (auto simp: skill_data_def list_all_iff)
  then have h: "list_all hashable ?xs"
    by (auto simp: list_all_iff is_str_hashable)
  have "list_all is_str (remdups ?xs)"
    using s by (simp add: list_all_iff)
  from sorted_py_strs [OF this] obtain opts
    where "sorted_py (remdups ?xs) = Inr opts" and "set opts = set ?xs"
    by auto
  moreover have "set ?xs = (\<Union>x \<in> set df_skills. set (safe_eval_list eval x))"
    by (auto simp: skill_data_def)
  ultimately show ?thesis
    using h by (simp add: all_skills_tab2_def Let_def)
qed

lemma tab2_strs:
  assumes "\<forall>l \<in> set df. list_all is_str
             (safe_eval_list eval (read_cell conv (map col_skills df) (col_skills l)))"
  shows "tab2 eval conv selected (Some df) = Inr (Some (filtered_df eval conv selected df))"
proof -
  have "\<forall>x \<in> set (read_column conv (map col_skills df)). list_all is_str (safe_eval_list eval x)"
    using assms by (auto simp: read_column_def)
  from all_skills_tab2_strs [OF this] show ?thesis
    by (auto simp: tab2_def)
qed

text \<open>
  A stored list of numbers beside a cell of strings: sorting the collected skills raises,
  and the second tab shows nothing.
\<close>

lemma tab2_mixed_kinds:
  "tab2 eval_example no_conversion [] (Some [line_numbers, line_corrupt]) = Inl TypeError"
  by code_simp

text \<open>The reading of a list display inverts \<^verbatim>\<open>repr\<close> on every list of strings.\<close>
lemma hex_val_digit: "k < 16 \<Longrightarrow> hex_val (hex_digit k) = Some k"
  by (auto simp: hex_val_def hex_digit_def Let_def)

lemma char_of_nat: "(of_char c :: nat) = n \<Longrightarrow> c = char_of n"
  by auto

lemma char_by_code: "(of_char c :: nat) = of_char d \<Longrightarrow> c = d"
  by (simp only: of_char_eq_iff)

lemma control_chars:
  "(of_char c :: nat) = 9 \<Longrightarrow> c = CHR 0x09"
  "(of_char c :: nat) = 10 \<Longrightarrow> c = CHR 0x0A"
  "(of_char c :: nat) = 13 \<Longrightarrow> c = CHR 0x0D"
  by (rule char_by_code, simp)+

lemma map_repr_strs: "map py_repr (map PStr xs) = map repr_str xs"
  by simp

lemma run_escape_hex:
  assumes "(of_char c :: nat) < 32 \<or> (of_char c :: nat) = 127"
  shows "run (Hex1 q acc) items
           (hex_digit (of_char c div 16) # hex_digit (of_char c mod 16) # rest)
         = run (Body q (c # acc)) items rest"
proof -
  let ?n = "of_char c :: nat"
  have d: "?n div 16 < 16" "?n mod 16 < 16"
    using assms by auto
  have "char_of (16 * (?n div 16) + ?n mod 16) = c"
    by simp
  then show ?thesis
    using d by (simp add: hex_val_digit)
qed

lemma run_repr_char:
  assumes "q = CHR 0x27 \<or> q = CHR 0x22"
  shows "run (Body q acc) items (repr_char q c @ rest) = run (Body q (c # acc)) items rest"
proof -
  let ?n = "of_char c :: nat"
  consider (quote) "c = q \<or> c = CHR 0x5C"
    | (tab) "\<not> (c = q \<or> c = CHR 0x5C)" "?n = 9"
    | (lf) "\<not> (c = q \<or> c = CHR 0x5C)" "?n = 10"
    | (cr) "\<not> (c = q \<or> c = CHR 0x5C)" "?n = 13"
    | (ctrl) "\<not> (c = q \<or> c = CHR 0x5C)" "?n \<noteq> 9" "?n \<noteq> 10" "?n \<noteq> 13" "?n < 32 \<or> ?n = 127"
    | (plain) "\<not> (c = q \<or> c = CHR 0x5C)" "?n \<noteq> 9" "?n \<noteq> 10" "?n \<noteq> 13" "\<not> (?n < 32 \<or> ?n = 127)"
    by blast
  then show ?thesis
  proof cases
    case quote
    then show ?thesis using assms by (auto simp: repr_char_def)
  next
    case tab
    then have "c = CHR 0x09" by (simp add: control_chars)
    then show ?thesis using assms by (auto simp: repr_char_def)
  next
    case lf
    then have "c = CHR 0x0A" by (simp add: control_chars)
    then show ?thesis using assms by (auto simp: repr_char_def)
  next
    case cr
    then have "c = CHR 0x0D" by (simp add: control_chars)
    then show ?thesis using assms by (auto simp: repr_char_def)
  next
    case ctrl
    have "repr_char q c = [CHR 0x5C, CHR ''x'', hex_digit (?n div 16), hex_digit (?n mod 16)]"
      using ctrl by (simp add: repr_char_def Let_def)
    then show ?thesis
      using assms run_escape_hex [OF ctrl(5)] by auto
  next
    case plain
    have "repr_char q c = [c]"
      using plain by (simp add: repr_char_def Let_def)
    then show ?thesis
      using plain by simp
  qed
qed

lemma run_repr_body:
  assumes "q = CHR 0x27 \<or> q = CHR 0x22"
  shows "run (Body q acc) items (concat (map (repr_char q) s) @ rest)
         = run (Body q (rev s @ acc)) items rest"
proof (induction s arbitrary: acc)
  case Nil
  then show ?case by simp
next
  case (Cons c s)
  have "run (Body q acc) items (concat (map (repr_char q) (c # s)) @ rest)
        = run (Body q acc) items (repr_char q c @ (concat (map (repr_char q) s) @ rest))"
    by simp
  also have "\<dots> = run (Body q (c # acc)) items (concat (map (repr_char q) s) @ rest)"
    by (rule run_repr_char [OF assms])
  also have "\<dots> = run (Body q (rev s @ c # acc)) items rest"
    by (rule Cons.IH)
  finally show ?case by simp
qed

lemma repr_str_quote:
  "\<exists>q. (q = CHR 0x27 \<or> q = CHR 0x22) \<and> repr_str s = q # concat (map (repr_char q) s) @ [q]"
  by (simp add: repr_str_def Let_def)

lemma run_repr_str:
  "run Elem items (repr_str s @ rest) = run Sep (PStr s # items) rest"
  "run Open items (repr_str s @ rest) = run Sep (PStr s # items) rest"
proof -
  obtain q where q: "q = CHR 0x27 \<or> q = CHR 0x22"
    and r: "repr_str s = q # concat (map (repr_char q) s) @ [q]"
    using repr_str_quote by blast
  have b: "run (Body q []) items (concat (map (repr_char q) s) @ (q # rest))
        = run (Body q (rev s @ [])) items (q # rest)"
    by (rule run_repr_body [OF q])
  show "run Elem items (repr_str s @ rest) = run Sep (PStr s # items) rest"
    using q b by (auto simp: r)
  show "run Open items (repr_str s @ rest) = run Sep (PStr s # items) rest"
    using q b by (auto simp: r)
qed

lemma run_elems:
  "run Elem items (join '', '' (map repr_str (s # ss)) @ '']'')
   = Some (rev items @ map PStr (s # ss))"
proof (induction ss arbitrary: s items)
  case Nil
  then show ?case by (simp add: run_repr_str)
next
  case (Cons t ss)
  have "run Elem items (join '', '' (map repr_str (s # t # ss)) @ '']'')
        = run Elem items (repr_str s @ ('', '' @ join '', '' (map repr_str (t # ss)) @ '']''))"
    by simp
  also have "\<dots> = run Sep (PStr s # items) ('', '' @ join '', '' (map repr_str (t # ss)) @ '']'')"
    by (rule run_repr_str)
  also have "\<dots> = run Elem (PStr s # items) (join '', '' (map repr_str (t # ss)) @ '']'')"
    by simp
  also have "\<dots> = Some (rev (PStr s # items) @ map PStr (t # ss))"
    by (rule Cons.IH)
  finally show ?case by simp
qed

lemma list_display_repr:
  "list_display (py_repr (PList (map PStr ss))) = Some (map PStr ss)"
proof (cases ss)
  case Nil
  then show ?thesis by (simp add: list_display_def)
next
  case (Cons s ss')
  have "run Open [] (join '', '' (map repr_str (s # ss')) @ '']'')
        = run Elem [] (join '', '' (map repr_str (s # ss')) @ '']'')"
  proof -
    obtain q where q: "q = CHR 0x27 \<or> q = CHR 0x22"
      and r: "repr_str s = q # concat (map (repr_char q) s) @ [q]"
      using repr_str_quote by blast
    have "\<exists>tl. join '', '' (map repr_str (s # ss')) @ '']'' = q # tl"
      by (cases ss') (simp_all add: r)
    then show ?thesis using q by auto
  qed
  then show ?thesis
    using Cons run_elems [of "[]" s ss']
    by (simp add: list_display_def map_repr_strs del: map_map list.map)
qed

text \<open>
  Where \<^verbatim>\<open>safe_eval_list\<close> agrees with the policy of the specification: on every cell
  but a text that evaluates to a value that is not a list and whose comma-separated pieces
  change when the brackets are stripped.
\<close>

lemma safe_eval_list_agrees:
  "\<not> (\<exists>s v. x = Str s \<and> eval s = Value v \<and> (\<forall>val. v \<noteq> PList val)
          \<and> comma_split s \<noteq> comma_split (strip_brackets s)) \<Longrightarrow>
   safe_eval_list eval x = tolerant_parse eval x"
  by (auto simp: safe_eval_list_def tolerant_parse_def
           split: cell.splits eval_result.splits pyval.splits)

section \<open>The claims\<close>

text \<open>
  C1, at the failing input.  The file holds one line, whose e-mail is \<^verbatim>\<open>N/A\<close>, and a
  profile with that e-mail is saved: a row with the profile's e-mail exists, and the handler
  reports \<open>Inserted\<close> and appends a second line.
\<close>

theorem save_misses_stored_email:
  "has_email_row [new_line (convert profile_na)] (email_id (prof (convert profile_na)))
   \<and> save_to_database no_conversion (Some (convert profile_na))
        (Some [new_line (convert profile_na)])
     = (Inserted, Some [new_line (convert profile_na), new_line (convert profile_na)])"
proof -
  have e: "email_id (prof (convert profile_na)) = Some ''N/A''"
    by (simp add: convert_def profile_na_def)
  have n: "''N/A'' \<in> set na_values"
    by (simp add: na_values_def)
  have h: "has_email_row [new_line (convert profile_na)] (Some ''N/A'')"
    using e by (simp add: has_email_row_def col_email_new_line)
  have s: "save_to_database no_conversion (Some (convert profile_na))
        (Some [new_line (convert profile_na)])
     = (Inserted, Some [new_line (convert profile_na), new_line (convert profile_na)])"
    using e n by (simp add: save_cases na_email_no_row lines_of_def)
  show ?thesis
    using e h s by simp
qed

text \<open>
  C2.  The skills kept with the profile when it is converted, and written when it is saved,
  are without duplicates and are exactly the elements of the three lists
  \<^verbatim>\<open>programming_languages\<close>, \<^verbatim>\<open>libraries_or_frameworks\<close> and \<^verbatim>\<open>other_tools\<close> taken from the
  technical skills; they do not depend on the interpersonal skills or the certifications.
  The field written is the textual form of that list.
\<close>

theorem stored_skills_union:
  "set (skills (convert data)) = set (prog_langs data) \<union> set (frameworks data) \<union> set (tools data)
   \<and> distinct (skills (convert data))
   \<and> (technical_skills data = Some (t # rest) \<longrightarrow>
        prog_langs data = or_empty (programming_languages t)
        \<and> frameworks data = or_empty (libraries_or_frameworks t)
        \<and> tools data = or_empty (other_tools t))
   \<and> skills (convert (data\<lparr>interpersonal_skills := i, certifications := c\<rparr>))
       = skills (convert data)
   \<and> col_skills (new_line (convert data)) = py_repr (PList (map PStr (skills (convert data))))
   \<and> (save_to_database conv (Some (convert data)) d = (Inserted, d') \<longrightarrow>
        col_skills (last (lines_of d')) = py_repr (PList (map PStr (skills (convert data)))))"
proof -
  have a: "set (skills (convert data))
           = set (prog_langs data) \<union> set (frameworks data) \<union> set (tools data)"
    by (auto simp: convert_def all_skills_def)
  have b: "distinct (skills (convert data))"
    by (simp add: convert_def all_skills_def)
  have c: "technical_skills data = Some (t # rest) \<longrightarrow>
        prog_langs data = or_empty (programming_languages t)
        \<and> frameworks data = or_empty (libraries_or_frameworks t)
        \<and> tools data = or_empty (other_tools t)"
    by (simp add: prog_langs_def frameworks_def tools_def tech0_def)
  have e: "skills (convert (data\<lparr>interpersonal_skills := i, certifications := c\<rparr>))
       = skills (convert data)"
    by (simp add: convert_def all_skills_def prog_langs_def frameworks_def tools_def tech0_def)
  have f: "save_to_database conv (Some (convert data)) d = (Inserted, d') \<longrightarrow>
        col_skills (last (lines_of d')) = py_repr (PList (map PStr (skills (convert data))))"
    by (auto simp: save_cases lines_of_def col_skills_new_line split: if_splits)
  show ?thesis using a b c e f col_skills_new_line by blast
qed

theorem stored_skills_union_witness:
  "technical_skills profile_example = Some (technical_example # [technical_go])
   \<and> set (skills (convert profile_example)) = {''Python'', ''SQL'', ''Git''}
   \<and> distinct (skills (convert profile_example))
   \<and> ''Talking'' \<notin> set (skills (convert profile_example))
   \<and> ''AWS'' \<notin> set (skills (convert profile_example))
   \<and> save_to_database no_conversion (Some (convert profile_example)) None
       = (Inserted, Some [new_line (convert profile_example)])
   \<and> col_skills (last (lines_of (Some [new_line (convert profile_example)])))
       = py_repr (PList (map PStr [''SQL'', ''Git'', ''Python'']))"
proof -
  note T = stored_skills_union [of profile_example technical_example "[technical_go]" None None
            no_conversion None "Some [new_line (convert profile_example)]"]
  have t: "technical_skills profile_example = Some (technical_example # [technical_go])"
    by (simp add: profile_example_def)
  have l: "or_empty (programming_languages technical_example) = [''Python'', ''SQL'']"
          "or_empty (libraries_or_frameworks technical_example) = []"
          "or_empty (other_tools technical_example) = [''Git'', ''Python'']"
    by (simp_all add: technical_example_def or_empty_def)
  have s: "save_to_database no_conversion (Some (convert profile_example)) None
       = (Inserted, Some [new_line (convert profile_example)])"
    by (simp add: save_cases lines_of_def found_row_Nil)
  have u: "set (skills (convert profile_example))
           = set [''Python'', ''SQL''] \<union> set [] \<union> set [''Git'', ''Python'']"
    using T t l by simp
  have a: "set (skills (convert profile_example)) = {''Python'', ''SQL'', ''Git''}"
    unfolding u by (simp add: insert_commute)
  have b: "distinct (skills (convert profile_example))"
    using T by blast
  have n: "''Talking'' \<notin> set (skills (convert profile_example))"
          "''AWS'' \<notin> set (skills (convert profile_example))"
    unfolding a by simp_all
  have w: "col_skills (last (lines_of (Some [new_line (convert profile_example)])))
           = py_repr (PList (map PStr (skills (convert profile_example))))"
    using T s by blast
  show ?thesis
    using t a b n s w unfolding skills_example by blast
qed

text \<open>
  C3, at the failing input.  The cell holds the text \<^verbatim>\<open>[1][0]\<close>, which evaluates to the
  number 1 and not to a list.  \<^verbatim>\<open>safe_eval_list\<close> returns the text as its one piece,
  brackets kept; the policy (comma-splitting the bracket-stripped text) gives the piece
  without its outer brackets.
\<close>

theorem safe_eval_list_keeps_brackets:
  "eval_example ''[1][0]'' = Value (PInt 1)
   \<and> safe_eval_list eval_example (Str ''[1][0]'') = [PStr ''[1][0]'']
   \<and> tolerant_parse eval_example (Str ''[1][0]'') = [PStr ''1][0'']
   \<and> safe_eval_list eval_example (Str ''[1][0]'') \<noteq> tolerant_parse eval_example (Str ''[1][0]'')"
  by code_simp

text \<open>
  C4, at the failing input.  A profile whose e-mail is the text \<^verbatim>\<open>N/A\<close> is saved twice,
  starting without a file: both calls report \<open>Inserted\<close>, and the file holds the line twice.
\<close>

theorem save_twice_na_email:
  "save_to_database no_conversion (Some (convert profile_na)) None
     = (Inserted, Some [new_line (convert profile_na)])
   \<and> save_to_database no_conversion (Some (convert profile_na))
        (Some [new_line (convert profile_na)])
     = (Inserted, Some [new_line (convert profile_na), new_line (convert profile_na)])"
proof -
  have e: "email_id (prof (convert profile_na)) = Some ''N/A''"
    by (simp add: convert_def profile_na_def)
  have n: "''N/A'' \<in> set na_values"
    by (simp add: na_values_def)
  have a: "save_to_database no_conversion (Some (convert profile_na)) None
     = (Inserted, Some [new_line (convert profile_na)])"
    by (simp add: save_cases lines_of_def found_row_Nil)
  show ?thesis
    using save_twice_na [OF e n, of no_conversion] a by simp
qed

text \<open>
  C5.  For every list of skills, the text written for it is a list display that reads back
  as the same list, and pandas returns that text as the string it is.  Hence, with an
  \<^verbatim>\<open>eval\<close> that evaluates list displays of string literals as Python does,
  \<^verbatim>\<open>safe_eval_list\<close> applied to the cell read from the file returns the list, with the
  same elements; and after a save that inserted, the skills parsed from the last row of the
  table read back are the skills of the profile.
\<close>

theorem skills_round_trip:
  "list_display (to_csv_field (PList (map PStr xs))) = Some (map PStr xs)
   \<and> read_cell conv ts (to_csv_field (PList (map PStr xs)))
       = Str (to_csv_field (PList (map PStr xs)))
   \<and> ((\<forall>s val. list_display s = Some val \<longrightarrow> eval s = Value (PList val)) \<longrightarrow>
        safe_eval_list eval (read_cell conv ts (to_csv_field (PList (map PStr xs)))) = map PStr xs
        \<and> set (safe_eval_list eval (read_cell conv ts (to_csv_field (PList (map PStr xs)))))
            = PStr ` set xs
        \<and> (save_to_database conv (Some dat) d = (Inserted, d') \<longrightarrow>
             last (skill_data eval (read_column conv (map col_skills (lines_of d'))))
             = map PStr (skills dat)))"
proof -
  have a: "list_display (to_csv_field (PList (map PStr xs))) = Some (map PStr xs)"
    by (simp only: to_csv_field_list list_display_repr)
  have k: "read_cell conv ts (to_csv_field (PList (map PStr ys)))
       = Str (to_csv_field (PList (map PStr ys)))" for ts ys
  proof -
    have "\<not> list_all scalar_char (py_repr (PList (map PStr ys)))"
      by (simp add: scalar_char_def py_isspace_def)
    from read_cell_kept [OF repr_list_not_na this] show ?thesis
      by (simp only: to_csv_field_list)
  qed
  have p: "safe_eval_list eval (read_cell conv ts (to_csv_field (PList (map PStr ys)))) = map PStr ys"
    if "\<forall>s val. list_display s = Some val \<longrightarrow> eval s = Value (PList val)" for ts ys
  proof -
    have "list_display (to_csv_field (PList (map PStr ys))) = Some (map PStr ys)"
      by (simp only: to_csv_field_list list_display_repr)
    with that have "eval (to_csv_field (PList (map PStr ys))) = Value (PList (map PStr ys))"
      by blast
    then show ?thesis
      by (simp add: k safe_eval_list_def)
  qed
  have q: "last (skill_data eval (read_column conv (map col_skills (lines_of d'))))
             = map PStr (skills dat)"
    if e: "\<forall>s val. list_display s = Some val \<longrightarrow> eval s = Value (PList val)"
      and i: "save_to_database conv (Some dat) d = (Inserted, d')"
  proof -
    have "d' = Some (lines_of d @ [new_line dat])"
      using i by (auto simp: save_cases split: if_splits)
    then have "last (skill_data eval (read_column conv (map col_skills (lines_of d'))))
        = safe_eval_list eval
            (read_cell conv (map col_skills (lines_of d @ [new_line dat]))
               (col_skills (new_line dat)))"
      by (simp add: skill_data_def read_column_def lines_of_def last_map)
    also have "col_skills (new_line dat) = to_csv_field (PList (map PStr (skills dat)))"
      by (simp add: new_line_def)
    finally show ?thesis
      using p [OF e] by simp
  qed
  show ?thesis
    using a k p q by auto
qed

theorem skills_round_trip_witness:
  "list_display (to_csv_field (PList (map PStr [''C++'', ''it's'', ''SQL''])))
     = Some (map PStr [''C++'', ''it's'', ''SQL''])
   \<and> to_csv_field (PList (map PStr [''C++'', ''it's'', ''SQL'']))
     = ''['' @ [CHR 0x27] @ ''C++'' @ [CHR 0x27] @ '', '' @ [CHR 0x22] @ ''it's'' @ [CHR 0x22]
       @ '', '' @ [CHR 0x27] @ ''SQL'' @ [CHR 0x27] @ '']''
   \<and> safe_eval_list eval_display
        (read_cell no_conversion [] (to_csv_field (PList (map PStr [''C++'', ''it's'', ''SQL'']))))
     = map PStr [''C++'', ''it's'', ''SQL'']"
proof -
  have e: "\<forall>s val. list_display s = Some val \<longrightarrow> eval_display s = Value (PList val)"
    by (simp add: eval_display_def)
  have t: "to_csv_field (PList (map PStr [''C++'', ''it's'', ''SQL'']))
     = ''['' @ [CHR 0x27] @ ''C++'' @ [CHR 0x27] @ '', '' @ [CHR 0x22] @ ''it's'' @ [CHR 0x22]
       @ '', '' @ [CHR 0x27] @ ''SQL'' @ [CHR 0x27] @ '']''"
    by code_simp
  show ?thesis
    using skills_round_trip [of "[''C++'', ''it's'', ''SQL'']" no_conversion "[]" eval_display] e t
    by blast
qed

text \<open>
  C6.  With no skill selected the rows are returned unchanged; otherwise the rows returned
  are exactly those, in their order, whose parsed skills contain every selected skill.
\<close>

theorem filtered_df_superset:
  "filtered_df eval conv [] df = df
   \<and> (selected \<noteq> [] \<longrightarrow>
        filtered_df eval conv selected df =
          filter (\<lambda>l. set selected
                        \<subseteq> set (safe_eval_list eval (read_cell conv (map col_skills df) (col_skills l))))
            df)"
  by (simp add: filtered_df_def read_column_def filter_zip_map has_all_subset)

theorem filtered_df_superset_witness:
  "[PStr ''Python''] \<noteq> []
   \<and> filtered_df eval_example no_conversion [PStr ''Python'']
        [new_line (convert profile_example), new_line (convert profile_go)]
      = [new_line (convert profile_example)]
   \<and> filtered_df eval_example no_conversion [PStr ''Python'', PStr ''Go'']
        [new_line (convert profile_example), new_line (convert profile_go)]
      = []
   \<and> filtered_df eval_example no_conversion []
        [new_line (convert profile_example), new_line (convert profile_go)]
      = [new_line (convert profile_example), new_line (convert profile_go)]"
proof -
  let ?df = "[new_line (convert profile_example), new_line (convert profile_go)]"
  have a: "safe_eval_list eval_example
             (read_cell no_conversion (map col_skills ?df) (col_skills (new_line (convert profile_example))))
           = [PStr ''SQL'', PStr ''Git'', PStr ''Python'']"
    by code_simp
  have b: "safe_eval_list eval_example
             (read_cell no_conversion (map col_skills ?df) (col_skills (new_line (convert profile_go))))
           = [PStr ''Go'']"
    by code_simp
  have p: "filtered_df eval_example no_conversion [PStr ''Python''] ?df
           = [new_line (convert profile_example)]"
    using filtered_df_superset [of eval_example no_conversion ?df "[PStr ''Python'']"] a b
    by simp
  have q: "filtered_df eval_example no_conversion [PStr ''Python'', PStr ''Go''] ?df = []"
    using filtered_df_superset [of eval_example no_conversion ?df "[PStr ''Python'', PStr ''Go'']"] a b
    by simp
  have r: "filtered_df eval_example no_conversion [] ?df = ?df"
    using filtered_df_superset [of eval_example no_conversion ?df "[]"] by blast
  show ?thesis
    using p q r by simp
qed

text \<open>
  C7.  The extension is the lower-cased suffix of the path.  For \<^verbatim>\<open>.pdf\<close> the result is
  that of the PDF loader, for \<^verbatim>\<open>.docx\<close> that of the DOCX loader (the joined page contents,
  or the loader's error); for every other extension the extraction fails with the error
  for an unsupported file type and calls no loader.
\<close>

theorem load_resume_text_dispatch:
  "(lower (suffix file_path) = ''.pdf'' \<longrightarrow>
      load_resume_text pdf docx file_path =
        (case pdf file_path of Inl e \<Rightarrow> Inl e | Inr docs \<Rightarrow> Inr (join_pages docs)))
   \<and> (lower (suffix file_path) = ''.docx'' \<longrightarrow>
      load_resume_text pdf docx file_path =
        (case docx file_path of Inl e \<Rightarrow> Inl e | Inr docs \<Rightarrow> Inr (join_pages docs)))
   \<and> (lower (suffix file_path) \<noteq> ''.pdf'' \<and> lower (suffix file_path) \<noteq> ''.docx'' \<longrightarrow>
      load_resume_text pdf docx file_path = Inl unsupported)"
  by (simp add: load_resume_text_def)

theorem load_resume_text_dispatch_witness:
  "lower (suffix ''/tmp/tmpab12.PDF'') = ''.pdf''
   \<and> load_resume_text pdf_example docx_example ''/tmp/tmpab12.PDF''
       = Inr (''page one'' @ [CHR 0x0A, CHR 0x0A] @ ''page two'')
   \<and> lower (suffix ''/tmp/tmpab12.docx'') = ''.docx''
   \<and> load_resume_text pdf_example docx_example ''/tmp/tmpab12.docx''
       = Inl (LoaderError ''not a zip file'')
   \<and> lower (suffix ''/tmp/notes.pdf.txt'') = ''.txt''
   \<and> load_resume_text pdf_example docx_example ''/tmp/notes.pdf.txt'' = Inl unsupported"
proof -
  have s: "lower (suffix ''/tmp/tmpab12.PDF'') = ''.pdf''"
          "lower (suffix ''/tmp/tmpab12.docx'') = ''.docx''"
          "lower (suffix ''/tmp/notes.pdf.txt'') = ''.txt''"
    by code_simp+
  have j: "join_pages [Some ''page one'', None, Some [], Some ''page two'']
           = ''page one'' @ [CHR 0x0A, CHR 0x0A] @ ''page two''"
    by (simp add: join_pages_def)
  have a: "load_resume_text pdf_example docx_example ''/tmp/tmpab12.PDF''
       = Inr (''page one'' @ [CHR 0x0A, CHR 0x0A] @ ''page two'')"
    using load_resume_text_dispatch [of "''/tmp/tmpab12.PDF''" pdf_example docx_example] s(1) j
    by (simp add: pdf_example_def)
  have b: "load_resume_text pdf_example docx_example ''/tmp/tmpab12.docx''
       = Inl (LoaderError ''not a zip file'')"
    using load_resume_text_dispatch [of "''/tmp/tmpab12.docx''" pdf_example docx_example] s(2)
    by (simp add: docx_example_def)
  have c: "load_resume_text pdf_example docx_example ''/tmp/notes.pdf.txt'' = Inl unsupported"
    using load_resume_text_dispatch [of "''/tmp/notes.pdf.txt''" pdf_example docx_example] s(3)
    by simp
  show ?thesis
    using s a b c by blast
qed

text \<open>
  C8.  \<^verbatim>\<open>Cancel\<close> in the dialog writes nothing.  When a save found the e-mail and opened
  the dialog, the file after the cancel is the file as it was before the save, which
  existed.
\<close>

theorem cancel_leaves_file:
  "show_overwrite_dialog conv Cancel email dat d = Inr d
   \<and> (save_to_database conv (Some dat) d = (AwaitingConfirmation, d1) \<longrightarrow>
        d \<noteq> None \<and> show_overwrite_dialog conv Cancel (email_id (prof dat)) dat d1 = Inr d)"
proof -
  have "d \<noteq> None \<and> d1 = d" if "save_to_database conv (Some dat) d = (AwaitingConfirmation, d1)"
    using that
    by (cases d) (simp_all add: save_cases lines_of_def found_row_Nil split: if_splits)
  then show ?thesis
    by (auto simp: show_overwrite_dialog_def)
qed

theorem cancel_leaves_file_witness:
  "save_to_database no_conversion (Some (convert profile_example))
     (Some [new_line (convert profile_example)])
     = (AwaitingConfirmation, Some [new_line (convert profile_example)])
   \<and> show_overwrite_dialog no_conversion Cancel (email_id (prof (convert profile_example)))
        (convert profile_example) (Some [new_line (convert profile_example)])
     = Inr (Some [new_line (convert profile_example)])"
proof -
  have s: "save_to_database no_conversion (Some (convert profile_example))
     (Some [new_line (convert profile_example)])
     = (AwaitingConfirmation, Some [new_line (convert profile_example)])"
    using has_row_example email_example by (simp add: save_cases lines_of_def)
  show ?thesis
    using cancel_leaves_file [of no_conversion "email_id (prof (convert profile_example))"
            "convert profile_example" "Some [new_line (convert profile_example)]"
            "Some [new_line (convert profile_example)]"] s
    by blast
qed

text \<open>
  C9.  The skills are those of the first entry of \<^verbatim>\<open>technical_skills\<close>: the entries after
  the first do not change them, and a profile whose \<^verbatim>\<open>technical_skills\<close> is not a list
  (null) or is the empty list has no skills.
\<close>

theorem all_skills_first_entry:
  "all_skills (data\<lparr>technical_skills := Some (t # rest)\<rparr>) =
     remdups (or_empty (programming_languages t) @ or_empty (libraries_or_frameworks t)
              @ or_empty (other_tools t))
   \<and> all_skills (data\<lparr>technical_skills := Some (t # rest)\<rparr>) =
       all_skills (data\<lparr>technical_skills := Some [t]\<rparr>)
   \<and> (technical_skills data = None \<or> technical_skills data = Some [] \<longrightarrow> all_skills data = [])"
  by (auto simp: all_skills_def prog_langs_def frameworks_def tools_def tech0_def or_empty_def)

theorem all_skills_first_entry_witness:
  "all_skills (profile_example\<lparr>technical_skills := Some (technical_example # [technical_go])\<rparr>)
     = [''SQL'', ''Git'', ''Python'']
   \<and> all_skills (profile_example\<lparr>technical_skills := Some [technical_example]\<rparr>)
     = [''SQL'', ''Git'', ''Python'']
   \<and> technical_skills (profile_example\<lparr>technical_skills := Some []\<rparr>) = Some []
   \<and> all_skills (profile_example\<lparr>technical_skills := Some []\<rparr>) = []
   \<and> technical_skills (profile_example\<lparr>technical_skills := None\<rparr>) = None
   \<and> all_skills (profile_example\<lparr>technical_skills := None\<rparr>) = []"
proof -
  have l: "remdups (or_empty (programming_languages technical_example)
                    @ or_empty (libraries_or_frameworks technical_example)
                    @ or_empty (other_tools technical_example)) = [''SQL'', ''Git'', ''Python'']"
    by code_simp
  note T = all_skills_first_entry [where data = profile_example and t = technical_example
             and rest = "[technical_go]"]
  have a: "all_skills (profile_example\<lparr>technical_skills := Some (technical_example # [technical_go])\<rparr>)
     = [''SQL'', ''Git'', ''Python'']"
    using T [THEN conjunct1] unfolding l .
  have b: "all_skills (profile_example\<lparr>technical_skills := Some [technical_example]\<rparr>)
     = [''SQL'', ''Git'', ''Python'']"
    using T [THEN conjunct2, THEN conjunct1] unfolding a by (rule sym)
  have c: "all_skills (profile_example\<lparr>technical_skills := Some []\<rparr>) = []"
    using all_skills_first_entry [where data = "profile_example\<lparr>technical_skills := Some []\<rparr>"] by simp
  have e: "all_skills (profile_example\<lparr>technical_skills := None\<rparr>) = []"
    using all_skills_first_entry [where data = "profile_example\<lparr>technical_skills := None\<rparr>"] by simp
  show ?thesis
    using a b c e by simp
qed

text \<open>
  C10.  A profile without e-mail is always inserted: the save reports \<open>Inserted\<close> and
  appends a line, whatever the file holds, also lines without e-mail; saving such a profile
  again adds a further line.
\<close>

theorem save_without_email_appends:
  "email_id (prof dat) = None \<Longrightarrow>
   save_to_database conv (Some dat) d = (Inserted, Some (lines_of d @ [new_line dat]))"
  by (simp add: save_cases found_row_def)

theorem save_without_email_appends_witness:
  "email_id (prof (convert profile_no_email)) = None
   \<and> col_email_id (new_line (convert profile_no_email)) = []
   \<and> save_to_database no_conversion (Some (convert profile_no_email))
        (Some [new_line (convert profile_no_email)])
     = (Inserted, Some [new_line (convert profile_no_email), new_line (convert profile_no_email)])"
proof -
  have e: "email_id (prof (convert profile_no_email)) = None"
    by (simp add: convert_def profile_no_email_def)
  have c: "col_email_id (new_line (convert profile_no_email)) = []"
    using e by (simp add: col_email_new_line)
  show ?thesis
    using save_without_email_appends [OF e, of no_conversion "Some [new_line (convert profile_no_email)]"] e c
    by (simp add: lines_of_def)
qed

end
